theory Spec2Isabelle
  imports Complex_Main "HOL-Library.AList"
begin

section \<open>The paper-trading ledger of \<open>crypto_trading_agent\<close>\<close>

text \<open>
  A shallow embedding of \<open>simulation.py\<close> (the class \<open>TradingSimulator\<close> and the
  helper \<open>suggest_notional_from_risk\<close>) and of the boundary function \<open>sim_place_order\<close>
  of \<open>agent.py\<close>.

  Conventions of the embedding:
  \<^item> In the ledger (profit and loss, cash, equity) Python floats are the reals and the
    arithmetic is exact: its properties are stated up to rounding. In the two boundary
    functions \<open>suggest_notional_from_risk\<close> and \<open>sim_place_order\<close> a rounding decides
    branches and the numbers returned, so their arithmetic is that of the binary64
    doubles, rounded to nearest with ties to even, with the infinities and NaN.
    A float division by zero raises \<open>ZeroDivisionError\<close> in Python and is a branch here.
  \<^item> Numeric arguments are finite floats, on which \<open>float(x)\<close> is the identity. The
    argument \<open>entry_price\<close> of \<open>place_order\<close> may also be a Python int: it is the one
    argument that the source converts after it has changed the ledger, and the
    conversion of an int beyond the doubles raises \<open>OverflowError\<close>. A NaN or infinite
    argument of the ledger operations is outside the model.
  \<^item> The object \<open>self\<close> (and the module-level \<open>GLOBAL_SIMULATOR\<close>) is a record that
    every operation takes and returns; an operation that raises returns the error
    together with the state as the exception leaves it.
  \<^item> \<open>uuid.uuid4()\<close> and \<open>datetime.utcnow()\<close> read the environment: the generated
    identifier and the clock reading are parameters \<open>new_id\<close> and \<open>now\<close> of the
    operations that use them. One ingestion passes a single clock reading to every
    close it triggers.
  \<^item> The dictionary \<open>positions\<close> keeps insertion order, which the loop of
    \<open>update_price\<close> follows: it is an association list. \<open>last_prices\<close> is only
    looked up and overwritten: it is a map.
  \<^item> Position objects are held by value. In the source the dictionary, the history and
    the caller share one object; it is mutated exactly once, by the close that removes it
    from the dictionary.
\<close>

subsection \<open>Data model\<close>

type_synonym time = nat

record SimPosition =
  pos_id :: string
  pair :: string
  side :: string
  entry_price :: real
  notional :: real
  stop_loss :: "real option"
  take_profit :: "real option"
  opened_at :: time
  status :: string
  closed_at :: "time option"
  close_price :: "real option"
  pnl :: "real option"

record TradingSimulator =
  initial_balance :: real
  cash :: real
  positions :: "(string \<times> SimPosition) list"
  trade_history :: "SimPosition list"
  last_prices :: "string \<rightharpoonup> real"

text \<open>
  The exceptions the ledger raises. \<open>InvalidSide\<close>, \<open>NonPositiveNotional\<close>,
  \<open>InsufficientCash requested available\<close> and \<open>NoLastPrice pair\<close> are the four
  \<open>ValueError\<close>s of the source, told apart by their message; \<open>PositionNotFound\<close> is
  its \<open>KeyError\<close>; \<open>OverflowError\<close> is raised by \<open>float\<close> on an int too large.
\<close>

datatype error =
    InvalidSide
  | NonPositiveNotional
  | InsufficientCash real real
  | NoLastPrice string
  | PositionNotFound string
  | ZeroDivisionError
  | OverflowError

text \<open>\<open>TradingSimulator.__init__\<close>\<close>

definition init_sim :: "real \<Rightarrow> TradingSimulator" where
  "init_sim b =
     \<lparr>initial_balance = b, cash = b, positions = [], trade_history = [],
      last_prices = Map.empty\<rparr>"

subsection \<open>Binary64 doubles\<close>

text \<open>
  A double is a finite value (read as a real; the two zeros are one), an infinity or NaN.
  \<open>p2 e\<close> is the power of two with an integer exponent, \<open>rhe\<close> rounds to the nearest
  integer with ties to even, and \<open>nearest x\<close> rounds to the grid of the doubles around
  \<open>x\<close>: 53 significant bits, and multiples of \<open>2 ^ -1074\<close> below the normal range.
  \<open>round64\<close> is the rounding of an exact result: beyond the largest double it gives an
  infinity.
\<close>

datatype double = Fin real | PInf | NInf | NaN

definition p2 :: "int \<Rightarrow> real" where
  "p2 e = (if 0 \<le> e then 2 ^ nat e else 1 / 2 ^ nat (- e))"

definition rhe :: "real \<Rightarrow> int" where
  "rhe x =
     (let f = \<lfloor>x\<rfloor>; d = x - of_int f
      in if d < 1 / 2 then f
         else if 1 / 2 < d then f + 1
         else if even f then f else f + 1)"

definition ulp_exp :: "real \<Rightarrow> int" where
  "ulp_exp x = max (\<lfloor>log 2 \<bar>x\<bar>\<rfloor> - 52) (- 1074)"

definition nearest :: "real \<Rightarrow> real" where
  "nearest x = (if x = 0 then 0 else of_int (rhe (x / p2 (ulp_exp x))) * p2 (ulp_exp x))"

definition round64 :: "real \<Rightarrow> double" where
  "round64 x =
     (let y = nearest x
      in if 2 ^ 1024 \<le> y then PInf else if y \<le> - (2 ^ 1024) then NInf else Fin y)"







text \<open>
  A numeric argument that is a float or an int, and \<open>float(v)\<close>: the identity on a
  float, the nearest double of an int, and \<open>OverflowError\<close> for an int that rounds
  beyond the doubles.
\<close>

datatype pynum = PyFloat real | PyInt int

definition to_float :: "pynum \<Rightarrow> error + real" where
  "to_float v =
     (case v of
        PyFloat x \<Rightarrow> Inr x
      | PyInt n \<Rightarrow> (case round64 (of_int n) of Fin y \<Rightarrow> Inr y | _ \<Rightarrow> Inl OverflowError))"

subsection \<open>Profit and loss, equity\<close>

definition calc_pnl_price :: "SimPosition \<Rightarrow> real \<Rightarrow> error + real" where
  "calc_pnl_price pos price =
     (if side pos = ''long'' then
        (if entry_price pos = 0 then Inl ZeroDivisionError
         else Inr (notional pos * (price / entry_price pos - 1)))
      else
        (if price = 0 then Inl ZeroDivisionError
         else Inr (notional pos * (entry_price pos / price - 1))))"



subsection \<open>Reset\<close>

definition reset :: "real option \<Rightarrow> TradingSimulator \<Rightarrow> TradingSimulator" where
  "reset new_balance s =
     (let s1 = (case new_balance of
                  Some b \<Rightarrow> s\<lparr>initial_balance := b\<rparr>
                | None \<Rightarrow> s)
      in s1\<lparr>cash := initial_balance s1, positions := [], trade_history := [],
            last_prices := Map.empty\<rparr>)"

subsection \<open>Opening a position\<close>

text \<open>
  \<open>str.lower\<close> on the letters that matter: an upper-case ASCII letter becomes its
  lower-case letter, every other character is kept (no character outside ASCII is
  lowered to a letter of \<open>long\<close> or \<open>short\<close>).
\<close>

definition lower_char :: "char \<Rightarrow> char" where
  "lower_char c =
     (let n = (of_char c :: nat)
      in if 65 \<le> n \<and> n \<le> 90 then char_of (n + 32) else c)"

definition lower :: "string \<Rightarrow> string" where
  "lower s = map lower_char s"

text \<open>
  The cash is debited before the position object is built; building it converts the
  entry price, and a conversion that raises leaves the debit in place.
\<close>

definition place_order ::
  "string \<Rightarrow> time \<Rightarrow> string \<Rightarrow> string \<Rightarrow> real \<Rightarrow> pynum option \<Rightarrow> real option \<Rightarrow>
   real option \<Rightarrow> TradingSimulator \<Rightarrow> (error + SimPosition) \<times> TradingSimulator" where
  "place_order new_id now pr sd ntl entry sl tp s =
     (let sd' = lower sd in
      if sd' \<noteq> ''long'' \<and> sd' \<noteq> ''short'' then (Inl InvalidSide, s)
      else if ntl \<le> 0 then (Inl NonPositiveNotional, s)
      else if ntl > cash s then (Inl (InsufficientCash ntl (cash s)), s)
      else
        (case (case entry of
                 Some e \<Rightarrow> Some e
               | None \<Rightarrow> map_option PyFloat (last_prices s pr)) of
           None \<Rightarrow> (Inl (NoLastPrice pr), s)
         | Some e \<Rightarrow>
             (let s1 = s\<lparr>cash := cash s - ntl\<rparr> in
              case to_float e of
                Inl err \<Rightarrow> (Inl err, s1)
              | Inr ep \<Rightarrow>
                  (let pos = \<lparr>pos_id = new_id, pair = pr, side = sd', entry_price = ep,
                              notional = ntl, stop_loss = sl, take_profit = tp,
                              opened_at = now, status = ''open'', closed_at = None,
                              close_price = None, pnl = None\<rparr>
                   in (Inr pos, s1\<lparr>positions := AList.update new_id pos (positions s1)\<rparr>)))))"

subsection \<open>Closing a position\<close>

definition close_position ::
  "time \<Rightarrow> string \<Rightarrow> real option \<Rightarrow> TradingSimulator \<Rightarrow>
   (error + SimPosition) \<times> TradingSimulator" where
  "close_position now pid price_arg s =
     (case map_of (positions s) pid of
        None \<Rightarrow> (Inl (PositionNotFound pid), s)
      | Some pos \<Rightarrow>
          if status pos \<noteq> ''open'' then (Inr pos, s)
          else
            (case (case price_arg of
                     Some p \<Rightarrow> Some p
                   | None \<Rightarrow> last_prices s (pair pos)) of
               None \<Rightarrow> (Inl (NoLastPrice (pair pos)), s)
             | Some price \<Rightarrow>
                 (case calc_pnl_price pos price of
                    Inl e \<Rightarrow> (Inl e, s)
                  | Inr v \<Rightarrow>
                      (let pos' = pos\<lparr>status := ''closed'', closed_at := Some now,
                                      close_price := Some price, pnl := Some v\<rparr>
                       in (Inr pos',
                           s\<lparr>cash := cash s + (notional pos + v),
                             trade_history := trade_history s @ [pos'],
                             positions := AList.delete pid (positions s)\<rparr>)))))"

subsection \<open>Price ingestion and the stop-loss / take-profit triggers\<close>

definition hit_sl :: "SimPosition \<Rightarrow> real \<Rightarrow> bool" where
  "hit_sl pos price =
     (case stop_loss pos of
        None \<Rightarrow> False
      | Some sl \<Rightarrow> (side pos = ''long'' \<and> price \<le> sl) \<or> (side pos = ''short'' \<and> price \<ge> sl))"

definition hit_tp :: "SimPosition \<Rightarrow> real \<Rightarrow> bool" where
  "hit_tp pos price =
     (case take_profit pos of
        None \<Rightarrow> False
      | Some tp \<Rightarrow> (side pos = ''long'' \<and> price \<ge> tp) \<or> (side pos = ''short'' \<and> price \<le> tp))"

definition check_and_maybe_close ::
  "time \<Rightarrow> SimPosition \<Rightarrow> real \<Rightarrow> TradingSimulator \<Rightarrow> (error + unit) \<times> TradingSimulator" where
  "check_and_maybe_close now pos price s =
     (if hit_sl pos price \<or> hit_tp pos price then
        (case close_position now (pos_id pos) (Some price) s of
           (Inl e, s') \<Rightarrow> (Inl e, s')
         | (Inr _, s') \<Rightarrow> (Inr (), s'))
      else (Inr (), s))"

text \<open>
  The loop of \<open>update_price\<close> over the snapshot \<open>list(self.positions.values())\<close>: an
  exception raised by a close leaves the loop with the state reached so far.
\<close>

fun update_loop ::
  "time \<Rightarrow> string \<Rightarrow> real \<Rightarrow> SimPosition list \<Rightarrow> TradingSimulator \<Rightarrow>
   (error + unit) \<times> TradingSimulator" where
  "update_loop now pr price [] s = (Inr (), s)"
| "update_loop now pr price (pos # ps) s =
     (if pair pos \<noteq> pr \<or> status pos \<noteq> ''open'' then update_loop now pr price ps s
      else (case check_and_maybe_close now pos price s of
              (Inl e, s') \<Rightarrow> (Inl e, s')
            | (Inr _, s') \<Rightarrow> update_loop now pr price ps s'))"

definition update_price ::
  "time \<Rightarrow> string \<Rightarrow> real \<Rightarrow> TradingSimulator \<Rightarrow> (error + unit) \<times> TradingSimulator" where
  "update_price now pr price s =
     (let s1 = s\<lparr>last_prices := (last_prices s)(pr \<mapsto> price)\<rparr>
      in update_loop now pr price (map snd (positions s1)) s1)"

subsection \<open>Read-only summaries\<close>

text \<open>The expression \<open>(p.pnl or 0.0)\<close>.\<close>

definition pnl_or_zero :: "SimPosition \<Rightarrow> real" where
  "pnl_or_zero t = (case pnl t of None \<Rightarrow> 0 | Some v \<Rightarrow> v)"



text \<open>
  The Python slice \<open>xs[start:]\<close>: a negative start counts from the end, and the start
  is clamped to the list.
\<close>

definition slice_from :: "int \<Rightarrow> 'a list \<Rightarrow> 'a list" where
  "slice_from start xs =
     (let n = int (length xs);
          i = (if start < 0 then max (n + start) 0 else min start n)
      in drop (nat i) xs)"

record summary =
  total_trades :: nat
  wins :: nat
  losses :: nat
  win_rate :: real
  total_pnl :: real
  trades :: "SimPosition list"

definition trade_history_summary :: "int \<Rightarrow> TradingSimulator \<Rightarrow> summary" where
  "trade_history_summary limit s =
     (let trs = slice_from (- limit) (trade_history s);
          w = sum_list (map (\<lambda>t. 1) (filter (\<lambda>t. pnl_or_zero t > 0) trs));
          l = sum_list (map (\<lambda>t. 1) (filter (\<lambda>t. pnl_or_zero t < 0) trs));
          total = length trs
      in \<lparr>total_trades = total, wins = w, losses = l,
          win_rate = (if total > 0 then real w / real total else 0),
          total_pnl = sum_list (map pnl_or_zero trs),
          trades = trs\<rparr>)"

subsection \<open>Risk sizing\<close>




subsection \<open>The boundary operation \<open>sim_place_order\<close> of \<open>agent.py\<close>\<close>




subsection \<open>Runs of the ledger\<close>

text \<open>
  A caller's sequence of operations. Each operation is applied to the state the
  previous one left, whether it returned or raised.
\<close>

datatype op =
    PlaceOrder string time string string real "pynum option" "real option" "real option"
  | ClosePosition time string "real option"
  | UpdatePrice time string real
  | Reset "real option"

fun step :: "op \<Rightarrow> TradingSimulator \<Rightarrow> TradingSimulator" where
  "step (PlaceOrder new_id now pr sd ntl entry sl tp) s =
     snd (place_order new_id now pr sd ntl entry sl tp s)"
| "step (ClosePosition now pid price_arg) s = snd (close_position now pid price_arg s)"
| "step (UpdatePrice now pr price) s = snd (update_price now pr price s)"
| "step (Reset new_balance) s = reset new_balance s"

fun run :: "op list \<Rightarrow> TradingSimulator \<Rightarrow> TradingSimulator" where
  "run [] s = s"
| "run (x # xs) s = run xs (step x s)"

text \<open>The identifiers that \<open>uuid4\<close> hands to the orders of a run, in order.\<close>

fun new_ids :: "op list \<Rightarrow> string list" where
  "new_ids [] = []"
| "new_ids (PlaceOrder new_id now pr sd ntl entry sl tp # xs) = new_id # new_ids xs"
| "new_ids (x # xs) = new_ids xs"

subsection \<open>Quantities and invariants of the specification\<close>

text \<open>
  The notional committed to open positions (the sum that \<open>explain_current_exposure\<close>
  reports) and the realized profit and loss (the sum of \<open>portfolio_state\<close>).
\<close>

definition open_notional :: "TradingSimulator \<Rightarrow> real" where
  "open_notional s = sum_list (map (\<lambda>kp. notional (snd kp)) (positions s))"

definition realized_pnl :: "TradingSimulator \<Rightarrow> real" where
  "realized_pnl s = sum_list (map pnl_or_zero (trade_history s))"

definition cash_conserved :: "TradingSimulator \<Rightarrow> bool" where
  "cash_conserved s \<longleftrightarrow> cash s + open_notional s = initial_balance s + realized_pnl s"

text \<open>
  The dictionary invariant: keys are unique (as in any dictionary), every position is
  stored under its own identifier, and every stored position is open.
\<close>

definition dict_ok :: "(string \<times> SimPosition) list \<Rightarrow> bool" where
  "dict_ok ps \<longleftrightarrow>
     distinct (map fst ps) \<and> list_all (\<lambda>kp. pos_id (snd kp) = fst kp \<and> status (snd kp) = ''open'') ps"


text \<open>The position as a close at \<open>price\<close> leaves it, for a position whose profit is \<open>v\<close>.\<close>

definition closed_with :: "time \<Rightarrow> real \<Rightarrow> real \<Rightarrow> SimPosition \<Rightarrow> SimPosition" where
  "closed_with now price v pos =
     pos\<lparr>status := ''closed'', closed_at := Some now, close_price := Some price,
         pnl := Some v\<rparr>"


text \<open>
  Every position of the history is closed and carries its profit; the ledger invariant
  joins the three conditions.
\<close>

definition history_ok :: "SimPosition list \<Rightarrow> bool" where
  "history_ok h \<longleftrightarrow> list_all (\<lambda>t. status t = ''closed'' \<and> pnl t \<noteq> None) h"

definition ledger_inv :: "TradingSimulator \<Rightarrow> bool" where
  "ledger_inv s \<longleftrightarrow> dict_ok (positions s) \<and> history_ok (trade_history s) \<and> cash_conserved s"



text \<open>
  An order whose entry price, when given, converts to a float; the operations of a run
  other than orders convert nothing after a change of the ledger.
\<close>

fun entry_converts :: "pynum option \<Rightarrow> bool" where
  "entry_converts None = True"
| "entry_converts (Some v) = (case to_float v of Inl e \<Rightarrow> False | Inr x \<Rightarrow> True)"

fun converting :: "op \<Rightarrow> bool" where
  "converting (PlaceOrder new_id now pr sd ntl entry sl tp) = entry_converts entry"
| "converting x = True"

subsection \<open>Example ledgers\<close>



definition short_example :: SimPosition where
  "short_example =
     \<lparr>pos_id = ''p2'', pair = ''ETH/USDT'', side = ''short'', entry_price = 100,
      notional = 1000, stop_loss = None, take_profit = None, opened_at = 1,
      status = ''open'', closed_at = None, close_price = None, pnl = None\<rparr>"

definition short_ledger :: TradingSimulator where
  "short_ledger =
     \<lparr>initial_balance = 10000, cash = 9000, positions = [(''p2'', short_example)],
      trade_history = [], last_prices = Map.empty\<rparr>"

definition closed_example :: "string \<Rightarrow> real \<Rightarrow> SimPosition" where
  "closed_example i v =
     \<lparr>pos_id = i, pair = ''BTC/USDT'', side = ''long'', entry_price = 100,
      notional = 1000, stop_loss = None, take_profit = None, opened_at = 1,
      status = ''closed'', closed_at = Some 2, close_price = Some (100 + v / 10),
      pnl = Some v\<rparr>"

definition history_ledger :: TradingSimulator where
  "history_ledger =
     \<lparr>initial_balance = 10000, cash = 10040,
      positions = [],
      trade_history = [closed_example ''a'' 50, closed_example ''b'' (- 10), closed_example ''c'' 0],
      last_prices = Map.empty\<rparr>"


text \<open>An int beyond the doubles.\<close>

definition huge_int :: int where
  "huge_int = 2 ^ 1024"





section \<open>Properties\<close>

subsection \<open>Rounding at given values\<close>

text \<open>
  Within one binade the exponent of the grid is known, and the rounding is computed.
\<close>

lemma p2_powr: "p2 e = 2 powr of_int e"
  by (simp add: p2_def powr_real_of_int inverse_eq_divide)

lemma ulp_exp_binade:
  assumes "p2 n \<le> \<bar>x\<bar>" and "\<bar>x\<bar> < p2 (n + 1)"
  shows "ulp_exp x = max (n - 52) (- 1074)"
proof -
  have "0 < p2 n" by (simp add: p2_powr)
  with assms(1) have pos: "0 < \<bar>x\<bar>" by linarith
  have "\<lfloor>log 2 \<bar>x\<bar>\<rfloor> = n"
    using assms pos by (simp add: floor_log_eq_powr_iff p2_powr)
  then show ?thesis by (simp add: ulp_exp_def)
qed

lemma nearest_binade:
  assumes "p2 n \<le> \<bar>x\<bar>" and "\<bar>x\<bar> < p2 (n + 1)"
  shows "nearest x = of_int (rhe (x / p2 (max (n - 52) (- 1074)))) * p2 (max (n - 52) (- 1074))"
proof -
  have "0 < p2 n" by (simp add: p2_powr)
  with assms(1) have "x \<noteq> 0" by auto
  then show ?thesis by (simp add: nearest_def ulp_exp_binade [OF assms])
qed










lemma round_overflow: "round64 (of_int (2 ^ 1024)) = PInf"
  unfolding round64_def
  using nearest_binade [of "1024" "2 ^ 1024"]
  by (simp add: p2_def rhe_def Let_def)


subsection \<open>Lower-casing of the side\<close>

lemma lower_Long: "lower ''Long'' = ''long''"
  by code_simp

lemma lower_long: "lower ''long'' = ''long''"
  by code_simp

lemma lower_short: "lower ''short'' = ''short''"
  by code_simp

subsection \<open>Reset\<close>

text \<open>
  C8. \<open>reset\<close> called with a balance stores it as the initial balance and as the cash;
  called without one it keeps the initial balance and sets the cash to it. In both cases
  the open positions, the trade history and the last prices are empty afterwards,
  whatever the state was before.
\<close>

theorem reset_clears_state:
  "reset (Some b) s =
     \<lparr>initial_balance = b, cash = b, positions = [], trade_history = [],
      last_prices = Map.empty\<rparr>
   \<and> reset None s =
     \<lparr>initial_balance = initial_balance s, cash = initial_balance s, positions = [],
      trade_history = [], last_prices = Map.empty\<rparr>"
  by (simp add: reset_def)

subsection \<open>Opening with insufficient cash\<close>

text \<open>
  C5. An order with a valid side (after lower-casing), a positive notional and a notional
  above the current cash raises the insufficient-cash error, and the ledger it leaves is
  the ledger it found: cash, open positions, history and last prices are all unchanged.
\<close>

theorem place_order_insufficient_funds:
  assumes "lower sd = ''long'' \<or> lower sd = ''short''"
    and "0 < ntl" and "cash s < ntl"
  shows "place_order new_id now pr sd ntl entry sl tp s
           = (Inl (InsufficientCash ntl (cash s)), s)"
  using assms by (auto simp add: place_order_def Let_def)

theorem place_order_insufficient_funds_witness:
  "place_order ''p1'' 0 ''BTC/USDT'' ''Long'' 20000 (Some (PyFloat 100)) None None
     (init_sim 10000)
     = (Inl (InsufficientCash 20000 10000), init_sim 10000)"
  using place_order_insufficient_funds
    [of "''Long''" 20000 "init_sim 10000" "''p1''" 0 "''BTC/USDT''" "Some (PyFloat 100)" None
       None]
  by (simp add: lower_Long init_sim_def)

subsection \<open>Realized profit and loss\<close>

text \<open>
  C4. Closing an open position at a positive price (given, or the last price of its
  market when none is given), its entry price being positive, succeeds; the realized
  profit is \<open>notional * (close_price / entry_price - 1)\<close> for a long position and
  \<open>notional * (entry_price / close_price - 1)\<close> for a short one, and the cash grows by
  the notional plus that profit. The witness is the short position of the
  specification: entry 100, notional 1000, closed at 80, profit 250.
\<close>

theorem close_position_pnl:
  assumes "map_of (positions s) pid = Some pos" and "status pos = ''open''"
    and "price_arg = Some price \<or> (price_arg = None \<and> last_prices s (pair pos) = Some price)"
    and "0 < entry_price pos" and "0 < price"
  shows "\<exists>pos' s'. close_position now pid price_arg s = (Inr pos', s')
           \<and> close_price pos' = Some price
           \<and> (side pos = ''long'' \<longrightarrow>
                 calc_pnl_price pos price = Inr (notional pos * (price / entry_price pos - 1))
               \<and> pnl pos' = Some (notional pos * (price / entry_price pos - 1))
               \<and> cash s' = cash s + (notional pos + notional pos * (price / entry_price pos - 1)))
           \<and> (side pos = ''short'' \<longrightarrow>
                 calc_pnl_price pos price = Inr (notional pos * (entry_price pos / price - 1))
               \<and> pnl pos' = Some (notional pos * (entry_price pos / price - 1))
               \<and> cash s' = cash s + (notional pos + notional pos * (entry_price pos / price - 1)))"
  using assms by (auto simp add: close_position_def calc_pnl_price_def Let_def)

theorem close_position_pnl_witness:
  "\<exists>pos' s'. close_position 2 ''p2'' (Some 80) short_ledger = (Inr pos', s')
      \<and> close_price pos' = Some 80 \<and> calc_pnl_price short_example 80 = Inr 250
      \<and> pnl pos' = Some 250 \<and> cash s' = 10250"
  using close_position_pnl [of short_ledger "''p2''" short_example "Some 80" 80 2]
  by (simp add: short_ledger_def short_example_def)

subsection \<open>Closing twice\<close>

text \<open>
  A close removes the position from the dictionary, so a second close of the same
  identifier finds no entry and raises, whatever clock reading and price it is given.
\<close>

lemma close_position_then_not_found:
  assumes "map_of (positions s) pid = Some pos" and "status pos = ''open''"
    and "close_position now pid price_arg s = (Inr pos', s')"
  shows "close_position now' pid price_arg' s' = (Inl (PositionNotFound pid), s')"
proof -
  have "positions s' = AList.delete pid (positions s)"
    using assms
    by (auto simp add: close_position_def Let_def split: option.splits sum.splits)
  then have "map_of (positions s') pid = None"
    by (simp add: delete_conv')
  then show ?thesis by (simp add: close_position_def)
qed

text \<open>
  C2. On a fresh ledger of 10000, an order of 1000 at 100 is opened and closed at 110:
  the first close returns the closed position with profit 100. The second close of the
  same identifier raises the not-found error (it leaves the ledger unchanged), where the
  claim has it succeed and return the closed position.
\<close>

theorem close_position_twice_raises:
  "(let s0 = snd (place_order ''p1'' 1 ''BTC/USDT'' ''long'' 1000 (Some (PyFloat 100)) None
                    None (init_sim 10000));
        r1 = close_position 2 ''p1'' (Some 110) s0;
        r2 = close_position 3 ''p1'' (Some 110) (snd r1)
    in fst r1 = Inr \<lparr>pos_id = ''p1'', pair = ''BTC/USDT'', side = ''long'', entry_price = 100,
                     notional = 1000, stop_loss = None, take_profit = None, opened_at = 1,
                     status = ''closed'', closed_at = Some 2, close_price = Some 110,
                     pnl = Some 100\<rparr>
     \<and> fst r2 = Inl (PositionNotFound ''p1'')
     \<and> snd r2 = snd r1)"
  by (simp add: place_order_def to_float_def close_position_def calc_pnl_price_def lower_long
      init_sim_def Let_def)

subsection \<open>History summary\<close>

lemma sum_list_ones: "sum_list (map (\<lambda>t. Suc 0) xs) = length xs"
  by (induction xs) simp_all


lemma slice_from_window:
  "slice_from (- limit) xs =
     (if 0 < limit then drop (length xs - nat limit) xs
      else if limit = 0 then xs
      else drop (nat (- limit)) xs)"
  by (auto simp add: slice_from_def Let_def max_def min_def nat_diff_distrib nat_add_distrib)

lemma win_loss_tie_count:
  "length (filter (\<lambda>t. pnl_or_zero t > 0) xs) + length (filter (\<lambda>t. pnl_or_zero t < 0) xs)
     + length (filter (\<lambda>t. pnl_or_zero t = 0) xs) = length xs"
  by (induction xs) auto

lemma summary_trades: "trades (trade_history_summary limit s) = slice_from (- limit) (trade_history s)"
  by (simp add: trade_history_summary_def Let_def)

lemma summary_total: "total_trades (trade_history_summary limit s) = length (trades (trade_history_summary limit s))"
  by (simp add: trade_history_summary_def Let_def)

lemma summary_wins:
  "wins (trade_history_summary limit s)
     = length (filter (\<lambda>t. pnl_or_zero t > 0) (trades (trade_history_summary limit s)))"
  by (simp add: trade_history_summary_def Let_def sum_list_ones)

lemma summary_losses:
  "losses (trade_history_summary limit s)
     = length (filter (\<lambda>t. pnl_or_zero t < 0) (trades (trade_history_summary limit s)))"
  by (simp add: trade_history_summary_def Let_def sum_list_ones)

lemma summary_win_rate:
  "win_rate (trade_history_summary limit s)
     = (if trades (trade_history_summary limit s) = [] then 0
        else real (wins (trade_history_summary limit s))
             / real (total_trades (trade_history_summary limit s)))"
  by (simp add: trade_history_summary_def Let_def)

lemma summary_total_pnl:
  "total_pnl (trade_history_summary limit s)
     = sum_list (map pnl_or_zero (trades (trade_history_summary limit s)))"
  by (simp add: trade_history_summary_def Let_def)

text \<open>
  C7. For every ledger and every limit, the summary's window is a suffix of the trade
  history (the last \<open>limit\<close> trades for a positive limit), and over that window only:
  \<open>wins\<close> counts the trades with positive profit, \<open>losses\<close> those with negative
  profit, a trade with profit zero is in neither count, \<open>win_rate\<close> is wins over the
  number of trades in the window and 0 when the window is empty, and \<open>total_pnl\<close> is
  the sum of the window's profits. In the witness the window of 2 of a history of 3 has
  total profit -10 while the whole history has 40, and a ledger with no trade has win
  rate 0.
\<close>

theorem trade_history_summary_aggregates:
  "(let r = trade_history_summary limit s in
      trades r = (if 0 < limit then drop (length (trade_history s) - nat limit) (trade_history s)
                  else if limit = 0 then trade_history s
                  else drop (nat (- limit)) (trade_history s))
    \<and> total_trades r = length (trades r)
    \<and> wins r = length (filter (\<lambda>t. pnl_or_zero t > 0) (trades r))
    \<and> losses r = length (filter (\<lambda>t. pnl_or_zero t < 0) (trades r))
    \<and> wins r + losses r + length (filter (\<lambda>t. pnl_or_zero t = 0) (trades r)) = total_trades r
    \<and> win_rate r = (if trades r = [] then 0 else real (wins r) / real (total_trades r))
    \<and> total_pnl r = sum_list (map pnl_or_zero (trades r)))"
proof -
  let ?r = "trade_history_summary limit s"
  have ties: "wins ?r + losses ?r + length (filter (\<lambda>t. pnl_or_zero t = 0) (trades ?r))
      = total_trades ?r"
    unfolding summary_wins summary_losses summary_total by (rule win_loss_tie_count)
  have window: "trades ?r = (if 0 < limit then drop (length (trade_history s) - nat limit) (trade_history s)
                  else if limit = 0 then trade_history s
                  else drop (nat (- limit)) (trade_history s))"
    unfolding summary_trades by (rule slice_from_window)
  show ?thesis
    unfolding Let_def
    using window summary_total summary_wins summary_losses ties summary_win_rate summary_total_pnl
    by blast
qed

theorem trade_history_summary_aggregates_witness:
  "(let r = trade_history_summary 2 history_ledger in
      trades r = [closed_example ''b'' (- 10), closed_example ''c'' 0]
    \<and> total_trades r = 2 \<and> wins r = 0 \<and> losses r = 1 \<and> win_rate r = 0
    \<and> total_pnl r = - 10 \<and> realized_pnl history_ledger = 40)
   \<and> win_rate (trade_history_summary 50 (init_sim 10000)) = 0
   \<and> win_rate (trade_history_summary 50 history_ledger) = 1 / 3"
  using trade_history_summary_aggregates [of 2 history_ledger]
    trade_history_summary_aggregates [of 50 "init_sim 10000"]
    trade_history_summary_aggregates [of 50 history_ledger]
  by (simp add: Let_def history_ledger_def closed_example_def pnl_or_zero_def realized_pnl_def init_sim_def)


subsection \<open>An order that raises after the debit\<close>

lemma to_float_huge_int: "to_float (PyInt huge_int) = Inl OverflowError"
proof -
  have "round64 (of_int (2 ^ 1024)) = PInf" by (rule round_overflow)
  then show ?thesis by (simp add: to_float_def huge_int_def)
qed

text \<open>
  C1. The claim fails on the code for an order whose entry price is an int beyond the
  doubles: on a fresh ledger of 10000, the order of 1000 passes every check, the cash is
  debited, and the conversion of the entry price then raises. The ledger is left with
  cash 9000 and no position, so the cash plus the open notional is 9000 while the
  initial balance plus the realized profit is 10000.
\<close>

theorem place_order_debits_then_raises:
  "(let r = place_order ''p1'' 1 ''BTC/USDT'' ''long'' 1000 (Some (PyInt huge_int)) None None
              (init_sim 10000)
    in fst r = Inl OverflowError
     \<and> snd r = \<lparr>initial_balance = 10000, cash = 9000, positions = [], trade_history = [],
                 last_prices = Map.empty\<rparr>
     \<and> cash (snd r) + open_notional (snd r) = 9000
     \<and> initial_balance (snd r) + realized_pnl (snd r) = 10000)"
  by (simp add: place_order_def lower_long init_sim_def to_float_huge_int Let_def
      open_notional_def realized_pnl_def)

subsection \<open>The notional cap of the boundary\<close>







subsection \<open>Risk sizing\<close>









subsection \<open>The ledger invariant\<close>



text \<open>What a close does: nothing, or the one transition of an open position.\<close>

lemma close_position_cases:
  assumes "close_position now pid price_arg s = (r, s')"
  obtains (unchanged) "s' = s"
  | (closed) pos price v where
      "map_of (positions s) pid = Some pos" "status pos = ''open''"
      "calc_pnl_price pos price = Inr v"
      "r = Inr (closed_with now price v pos)"
      "s' = s\<lparr>cash := cash s + (notional pos + v),
              trade_history := trade_history s @ [closed_with now price v pos],
              positions := AList.delete pid (positions s)\<rparr>"
  using assms
  by (auto simp add: close_position_def closed_with_def Let_def
      split: option.splits sum.splits if_splits)


lemma dict_ok_delete:
  assumes "dict_ok ps"
  shows "dict_ok (AList.delete k ps)"
proof -
  have "distinct (map fst (AList.delete k ps))"
    using assms by (simp add: dict_ok_def distinct_delete)
  moreover have "list_all (\<lambda>kp. pos_id (snd kp) = fst kp \<and> status (snd kp) = ''open'')
      (AList.delete k ps)"
    using assms by (simp add: dict_ok_def AList.delete_eq list_all_iff)
  ultimately show ?thesis by (simp add: dict_ok_def)
qed

lemma sum_list_delete:
  "distinct (map fst ps) \<Longrightarrow> map_of ps k = Some p \<Longrightarrow>
   sum_list (map (\<lambda>kp. notional (snd kp)) (AList.delete k ps)) + notional p
     = sum_list (map (\<lambda>kp. notional (snd kp)) ps)"
proof (induction ps)
  case Nil
  then show ?case by simp
next
  case (Cons a ps)
  show ?case
  proof (cases "fst a = k")
    case True
    with Cons.prems have "k \<notin> fst ` set ps" and "snd a = p" by auto
    then have "AList.delete k ps = ps"
      by (simp add: delete_id)
    with True \<open>snd a = p\<close> show ?thesis by (cases a) (simp add: AList.delete_eq)
  next
    case False
    with Cons show ?thesis by (cases a) simp
  qed
qed

lemma update_fresh: "k \<notin> fst ` set ps \<Longrightarrow> AList.update k v ps = ps @ [(k, v)]"
  by (induction ps) auto

lemma closed_with_fields:
  "status (closed_with now price v pos) = ''closed''"
  "pnl (closed_with now price v pos) = Some v"
  "pos_id (closed_with now price v pos) = pos_id pos"
  "close_price (closed_with now price v pos) = Some price"
  by (simp_all add: closed_with_def)

lemma close_position_inv:
  assumes "ledger_inv s" and "close_position now pid price_arg s = (r, s')"
  shows "ledger_inv s'"
  using assms(2)
proof (cases rule: close_position_cases)
  case unchanged
  with assms(1) show ?thesis by simp
next
  case (closed pos price v)
  from assms(1) have d: "distinct (map fst (positions s))"
    by (simp add: ledger_inv_def dict_ok_def)
  have n: "sum_list (map (\<lambda>kp. notional (snd kp)) (AList.delete pid (positions s))) + notional pos
     = sum_list (map (\<lambda>kp. notional (snd kp)) (positions s))"
    using d closed(1) by (rule sum_list_delete)
  have "cash_conserved s'"
    using assms(1) n
    by (simp add: closed(5) ledger_inv_def cash_conserved_def open_notional_def realized_pnl_def
        pnl_or_zero_def closed_with_fields)
  moreover have "dict_ok (positions s')"
    using assms(1) by (simp add: closed(5) ledger_inv_def dict_ok_delete)
  moreover have "history_ok (trade_history s')"
    using assms(1) by (simp add: closed(5) ledger_inv_def history_ok_def closed_with_fields)
  ultimately show ?thesis by (simp add: ledger_inv_def)
qed

lemma close_position_keys:
  assumes "close_position now pid price_arg s = (r, s')"
  shows "fst ` set (positions s') \<subseteq> fst ` set (positions s)"
  using assms
proof (cases rule: close_position_cases)
  case unchanged
  then show ?thesis by simp
next
  case (closed pos price v)
  then show ?thesis by (auto simp add: AList.delete_eq)
qed

lemma check_and_maybe_close_inv:
  assumes "ledger_inv s" and "check_and_maybe_close now pos price s = (r, s')"
  shows "ledger_inv s'"
proof (cases "hit_sl pos price \<or> hit_tp pos price")
  case True
  obtain r1 s1 where c: "close_position now (pos_id pos) (Some price) s = (r1, s1)"
    by (cases "close_position now (pos_id pos) (Some price) s")
  with True assms(2) have "s' = s1"
    by (auto simp add: check_and_maybe_close_def split: sum.splits)
  with close_position_inv [OF assms(1) c] show ?thesis by simp
next
  case False
  with assms show ?thesis by (simp add: check_and_maybe_close_def)
qed

lemma check_and_maybe_close_keys:
  assumes "check_and_maybe_close now pos price s = (r, s')"
  shows "fst ` set (positions s') \<subseteq> fst ` set (positions s)"
proof (cases "hit_sl pos price \<or> hit_tp pos price")
  case True
  obtain r1 s1 where c: "close_position now (pos_id pos) (Some price) s = (r1, s1)"
    by (cases "close_position now (pos_id pos) (Some price) s")
  with True assms have "s' = s1"
    by (auto simp add: check_and_maybe_close_def split: sum.splits)
  with close_position_keys [OF c] show ?thesis by simp
next
  case False
  with assms show ?thesis by (simp add: check_and_maybe_close_def)
qed

lemma update_loop_inv:
  "ledger_inv s \<Longrightarrow> ledger_inv (snd (update_loop now pr price ps s))"
proof (induction ps arbitrary: s)
  case Nil
  then show ?case by simp
next
  case (Cons pos ps)
  obtain r s1 where c: "check_and_maybe_close now pos price s = (r, s1)"
    by (cases "check_and_maybe_close now pos price s")
  have i1: "ledger_inv s1"
    using Cons.prems c by (rule check_and_maybe_close_inv)
  show ?case
    using Cons.IH [OF Cons.prems] Cons.IH [OF i1] i1 c
    by (cases r) simp_all
qed

lemma update_loop_keys:
  "fst ` set (positions (snd (update_loop now pr price ps s))) \<subseteq> fst ` set (positions s)"
proof (induction ps arbitrary: s)
  case Nil
  then show ?case by simp
next
  case (Cons pos ps)
  obtain r s1 where c: "check_and_maybe_close now pos price s = (r, s1)"
    by (cases "check_and_maybe_close now pos price s")
  have k1: "fst ` set (positions s1) \<subseteq> fst ` set (positions s)"
    using c by (rule check_and_maybe_close_keys)
  show ?case
  proof (cases "pair pos \<noteq> pr \<or> status pos \<noteq> ''open''")
    case True
    then show ?thesis using Cons.IH [of s] by simp
  next
    case False
    show ?thesis
    proof (cases r)
      case (Inl e)
      with False c k1 show ?thesis by simp
    next
      case (Inr u)
      with False c have "update_loop now pr price (pos # ps) s = update_loop now pr price ps s1"
        by simp
      with Cons.IH [of s1] k1 show ?thesis by auto
    qed
  qed
qed

lemma ledger_inv_last_prices: "ledger_inv (s\<lparr>last_prices := lp\<rparr>) = ledger_inv s"
  by (simp add: ledger_inv_def cash_conserved_def open_notional_def realized_pnl_def)

lemma update_price_inv: "ledger_inv s \<Longrightarrow> ledger_inv (snd (update_price now pr price s))"
  by (simp add: update_price_def Let_def update_loop_inv ledger_inv_last_prices)

lemma update_price_keys:
  "fst ` set (positions (snd (update_price now pr price s))) \<subseteq> fst ` set (positions s)"
  using update_loop_keys [of now pr price "map snd (positions s)" "s\<lparr>last_prices := (last_prices s)(pr \<mapsto> price)\<rparr>"]
  by (simp add: update_price_def Let_def)

lemma place_order_inv:
  assumes "ledger_inv s" and "new_id \<notin> fst ` set (positions s)" and "entry_converts entry"
  shows "ledger_inv (snd (place_order new_id now pr sd ntl entry sl tp s))"
  using assms
  by (auto simp add: place_order_def Let_def update_fresh ledger_inv_def dict_ok_def
      cash_conserved_def open_notional_def realized_pnl_def to_float_def
      split: option.splits sum.splits pynum.splits double.splits)

lemma place_order_keys:
  "fst ` set (positions (snd (place_order new_id now pr sd ntl entry sl tp s)))
     \<subseteq> insert new_id (fst ` set (positions s))"
  by (auto simp add: place_order_def Let_def dom_update split: option.splits sum.splits)

lemma reset_inv: "ledger_inv (reset new_balance s)"
  by (simp add: reset_def ledger_inv_def dict_ok_def history_ok_def cash_conserved_def
      open_notional_def realized_pnl_def split: option.splits)

lemma init_sim_inv: "ledger_inv (init_sim b)"
  by (simp add: init_sim_def ledger_inv_def dict_ok_def history_ok_def cash_conserved_def
      open_notional_def realized_pnl_def)

lemma step_inv:
  assumes "ledger_inv s" and "set (new_ids [x]) \<inter> fst ` set (positions s) = {}"
    and "converting x"
  shows "ledger_inv (step x s)"
proof (cases x)
  case (PlaceOrder new_id now pr sd ntl entry sl tp)
  with assms show ?thesis by (simp add: place_order_inv)
next
  case (ClosePosition now pid price_arg)
  obtain r s' where c: "close_position now pid price_arg s = (r, s')"
    by (cases "close_position now pid price_arg s")
  with close_position_inv [OF assms(1) c] ClosePosition show ?thesis by simp
next
  case (UpdatePrice now pr price)
  with assms(1) show ?thesis by (simp add: update_price_inv)
next
  case (Reset new_balance)
  then show ?thesis by (simp add: reset_inv)
qed

lemma step_keys:
  "fst ` set (positions (step x s)) \<subseteq> set (new_ids [x]) \<union> fst ` set (positions s)"
proof (cases x)
  case (PlaceOrder new_id now pr sd ntl entry sl tp)
  then show ?thesis using place_order_keys [of new_id now pr sd ntl entry sl tp s] by auto
next
  case (ClosePosition now pid price_arg)
  obtain r s' where c: "close_position now pid price_arg s = (r, s')"
    by (cases "close_position now pid price_arg s")
  with close_position_keys [OF c] ClosePosition show ?thesis by auto
next
  case (UpdatePrice now pr price)
  then show ?thesis using update_price_keys [of now pr price s] by auto
next
  case (Reset new_balance)
  then show ?thesis by (simp add: reset_def split: option.splits)
qed

lemma new_ids_Cons: "new_ids (x # xs) = new_ids [x] @ new_ids xs"
  by (cases x) simp_all

lemma new_ids_append: "new_ids (xs @ ys) = new_ids xs @ new_ids ys"
proof (induction xs)
  case Nil
  then show ?case by simp
next
  case (Cons x xs)
  then show ?case using new_ids_Cons [of x "xs @ ys"] new_ids_Cons [of x xs] by simp
qed

lemma run_inv:
  assumes "ledger_inv s" and "distinct (new_ids ops)"
    and "set (new_ids ops) \<inter> fst ` set (positions s) = {}"
    and "list_all converting ops"
  shows "ledger_inv (run ops s)"
  using assms
proof (induction ops arbitrary: s)
  case Nil
  then show ?case by simp
next
  case (Cons x xs)
  have split: "new_ids (x # xs) = new_ids [x] @ new_ids xs"
    by (rule new_ids_Cons)
  have fresh: "set (new_ids [x]) \<inter> fst ` set (positions s) = {}"
    using Cons.prems(3) split by auto
  have i1: "ledger_inv (step x s)"
    using Cons.prems(1) fresh by (rule step_inv) (use Cons.prems(4) in simp)
  have d1: "distinct (new_ids xs)"
    using Cons.prems(2) split by simp
  have "set (new_ids xs) \<inter> set (new_ids [x]) = {}"
    using Cons.prems(2) split by auto
  moreover have "set (new_ids xs) \<inter> fst ` set (positions s) = {}"
    using Cons.prems(3) split by auto
  ultimately have f1: "set (new_ids xs) \<inter> fst ` set (positions (step x s)) = {}"
    using step_keys [of x s] by blast
  have c1: "list_all converting xs"
    using Cons.prems(4) by simp
  show ?case using Cons.IH [OF i1 d1 f1 c1] by simp
qed

text \<open>
  On every run whose generated identifiers are pairwise distinct and whose entry prices
  convert, from a fresh or a reset ledger, the invariant holds after every prefix: the
  cash is conserved, the stored positions are the open ones, the history is closed.
\<close>

lemma conservation_on_converting_runs:
  assumes "distinct (new_ids ops)" and "list_all converting ops"
  shows "ledger_inv (run (take n ops) (init_sim b))"
    and "ledger_inv (run (take n ops) (reset new_balance s0))"
proof -
  have "new_ids ops = new_ids (take n ops) @ new_ids (drop n ops)"
    using new_ids_append [of "take n ops" "drop n ops"] by simp
  with assms(1) have d: "distinct (new_ids (take n ops))" by simp
  have c: "list_all converting (take n ops)"
    using assms(2) by (auto simp add: list_all_iff dest: in_set_takeD)
  show "ledger_inv (run (take n ops) (init_sim b))"
    using init_sim_inv d _ c by (rule run_inv) (simp add: init_sim_def)
  show "ledger_inv (run (take n ops) (reset new_balance s0))"
    using reset_inv d _ c by (rule run_inv) (simp add: reset_def split: option.splits)
qed

subsection \<open>Triggers on price ingestion\<close>











end
